theory Spec2Isabelle
  imports Complex_Main
begin

section \<open>N-API values, call frames and exceptions\<close>

text \<open>
  The four scanner wrappers are Node.js addons: every method takes a
  \<^verbatim>\<open>Napi::CallbackInfo\<close> (the JavaScript arguments) and returns a
  \<^verbatim>\<open>Napi::Value\<close>.  A JavaScript value is modelled by the constructors the
  wrappers build or inspect.  A string carries the bytes that
  \<^verbatim>\<open>Utf8Value()\<close> yields; a number is the real it denotes (every number
  literal of the sources is exactly representable as a double); an array is the
  list of its elements and an object the list of its properties in insertion
  order.
\<close>

datatype napi_value =
    JNull
  | JUndefined
  | JBoolean bool
  | JNumber real
  | JString string
  | JArray "napi_value list"
  | JObject "(string \<times> napi_value) list"

type_synonym CallbackInfo = "napi_value list"

text \<open>
  \<^verbatim>\<open>Napi::Error::New(env, msg).ThrowAsJavaScriptException()\<close> followed by
  \<^verbatim>\<open>return env.Null()\<close> leaves a pending exception that the JavaScript
  caller sees as a throw; \<^verbatim>\<open>Napi::TypeError\<close> is the other class the
  wrappers use.  A call therefore ends in \<open>Inl\<close> of the exception or in
  \<open>Inr\<close> of the returned value.
\<close>

datatype js_exception = Error string | TypeError string

type_synonym outcome = "js_exception + napi_value"

text \<open>\<^verbatim>\<open>info[i]\<close>: N-API yields \<^verbatim>\<open>undefined\<close> past the last argument.\<close>

definition info_at :: "CallbackInfo \<Rightarrow> nat \<Rightarrow> napi_value" where
  "info_at info i = (if i < length info then info ! i else JUndefined)"

fun IsString :: "napi_value \<Rightarrow> bool" where
  "IsString (JString s) = True"
| "IsString v = False"

text \<open>
  \<^verbatim>\<open>v.As<Napi::String>().Utf8Value()\<close>.  The wrappers call it only behind an
  \<^verbatim>\<open>IsString()\<close> guard, so the second equation is never reached.
\<close>

fun Utf8Value :: "napi_value \<Rightarrow> string" where
  "Utf8Value (JString s) = s"
| "Utf8Value v = []"

text \<open>\<^verbatim>\<open>obj.Set(key, value)\<close>: overwrite the property if present, else append it.\<close>

fun Object_Set :: "string \<Rightarrow> napi_value \<Rightarrow> (string \<times> napi_value) list \<Rightarrow> (string \<times> napi_value) list" where
  "Object_Set k v [] = [(k, v)]"
| "Object_Set k v (p # ps) = (if fst p = k then (k, v) # ps else p # Object_Set k v ps)"

text \<open>
  \<^verbatim>\<open>Napi::Array::New(env, n)\<close> has length \<open>n\<close> with every slot
  \<^verbatim>\<open>undefined\<close>; \<^verbatim>\<open>arr.Set(i, v)\<close> stores at index \<open>i\<close> and, as in
  JavaScript, extends the array when \<open>i\<close> is past its end.
\<close>

definition Array_New :: "nat \<Rightarrow> napi_value list" where
  "Array_New n = replicate n JUndefined"

definition Array_Set :: "nat \<Rightarrow> napi_value \<Rightarrow> napi_value list \<Rightarrow> napi_value list" where
  "Array_Set i v xs =
     (if i < length xs then xs[i := v]
      else xs @ replicate (i - length xs) JUndefined @ [v])"

section \<open>The session state\<close>

text \<open>
  \<^verbatim>\<open>TwainScanner\<close>, \<^verbatim>\<open>SaneScanner\<close>, \<^verbatim>\<open>WiaScanner\<close> and
  \<^verbatim>\<open>ImageCaptureScanner\<close> each declare the same two private members,
  \<^verbatim>\<open>bool isInitialized_\<close> and \<^verbatim>\<open>std::string selectedDeviceId_\<close>
  (the trailing underscore is not a legal end of a name here and is dropped).
\<close>

record Scanner =
  isInitialized :: bool
  selectedDeviceId :: string

text \<open>
  Each constructor initialises \<^verbatim>\<open>isInitialized_(false)\<close>; the
  \<^verbatim>\<open>std::string\<close> member is default-constructed, hence empty.
\<close>

definition TwainScanner_new :: Scanner where
  "TwainScanner_new = \<lparr>isInitialized = False, selectedDeviceId = []\<rparr>"

definition SaneScanner_new :: Scanner where
  "SaneScanner_new = \<lparr>isInitialized = False, selectedDeviceId = []\<rparr>"

definition WiaScanner_new :: Scanner where
  "WiaScanner_new = \<lparr>isInitialized = False, selectedDeviceId = []\<rparr>"

section \<open>twainWrapper.cpp\<close>

definition TwainInitialize :: "CallbackInfo \<Rightarrow> Scanner \<Rightarrow> outcome \<times> Scanner" where
  "TwainInitialize info this = (Inr (JBoolean True), this\<lparr>isInitialized := True\<rparr>)"

definition TwainEnumerateDevices :: "CallbackInfo \<Rightarrow> Scanner \<Rightarrow> outcome \<times> Scanner" where
  "TwainEnumerateDevices info this =
     (if \<not> isInitialized this then (Inl (Error ''TWAIN not initialized''), this)
      else
        let devices = Array_New 0;
            mockDevice = [];
            mockDevice = Object_Set ''id'' (JString ''twain-mock-001'') mockDevice;
            mockDevice = Object_Set ''name'' (JString ''TWAIN Mock Scanner'') mockDevice;
            mockDevice = Object_Set ''manufacturer'' (JString ''PaperFlow'') mockDevice;
            mockDevice = Object_Set ''model'' (JString ''Virtual Scanner'') mockDevice;
            mockDevice = Object_Set ''available'' (JBoolean True) mockDevice;
            mockDevice = Object_Set ''platform'' (JString ''twain'') mockDevice;
            capabilities = [];
            capabilities = Object_Set ''hasFlatbed'' (JBoolean True) capabilities;
            capabilities = Object_Set ''hasADF'' (JBoolean True) capabilities;
            capabilities = Object_Set ''duplex'' (JBoolean True) capabilities;
            resolutions = Array_New 4;
            resolutions = Array_Set 0 (JNumber 75) resolutions;
            resolutions = Array_Set 1 (JNumber 150) resolutions;
            resolutions = Array_Set 2 (JNumber 300) resolutions;
            resolutions = Array_Set 3 (JNumber 600) resolutions;
            capabilities = Object_Set ''resolutions'' (JArray resolutions) capabilities;
            colorModes = Array_New 3;
            colorModes = Array_Set 0 (JString ''color'') colorModes;
            colorModes = Array_Set 1 (JString ''grayscale'') colorModes;
            colorModes = Array_Set 2 (JString ''blackwhite'') colorModes;
            capabilities = Object_Set ''colorModes'' (JArray colorModes) capabilities;
            paperSizes = Array_New 4;
            paperSizes = Array_Set 0 (JString ''letter'') paperSizes;
            paperSizes = Array_Set 1 (JString ''legal'') paperSizes;
            paperSizes = Array_Set 2 (JString ''a4'') paperSizes;
            paperSizes = Array_Set 3 (JString ''a5'') paperSizes;
            capabilities = Object_Set ''paperSizes'' (JArray paperSizes) capabilities;
            capabilities = Object_Set ''maxWidth'' (JNumber 8.5) capabilities;
            capabilities = Object_Set ''maxHeight'' (JNumber 14.0) capabilities;
            mockDevice = Object_Set ''capabilities'' (JObject capabilities) mockDevice;
            devices = Array_Set 0 (JObject mockDevice) devices
        in (Inr (JArray devices), this))"

definition TwainSelectDevice :: "CallbackInfo \<Rightarrow> Scanner \<Rightarrow> outcome \<times> Scanner" where
  "TwainSelectDevice info this =
     (if length info < 1 \<or> \<not> IsString (info_at info 0)
      then (Inl (TypeError ''Device ID expected''), this)
      else (Inr (JBoolean True), this\<lparr>selectedDeviceId := Utf8Value (info_at info 0)\<rparr>))"

definition TwainGetCapabilities :: "CallbackInfo \<Rightarrow> Scanner \<Rightarrow> outcome \<times> Scanner" where
  "TwainGetCapabilities info this =
     (let capabilities = [];
          capabilities = Object_Set ''hasFlatbed'' (JBoolean True) capabilities;
          capabilities = Object_Set ''hasADF'' (JBoolean True) capabilities;
          capabilities = Object_Set ''duplex'' (JBoolean True) capabilities
      in (Inr (JObject capabilities), this))"

definition TwainScan :: "CallbackInfo \<Rightarrow> Scanner \<Rightarrow> outcome \<times> Scanner" where
  "TwainScan info this =
     (if selectedDeviceId this = [] then (Inl (Error ''No device selected''), this)
      else
        let result = [];
            result = Object_Set ''success'' (JBoolean False) result;
            result = Object_Set ''errorMessage''
                       (JString ''TWAIN scanning not implemented - using mock scanner'') result
        in (Inr (JObject result), this))"

definition TwainCancelScan :: "CallbackInfo \<Rightarrow> Scanner \<Rightarrow> outcome \<times> Scanner" where
  "TwainCancelScan info this = (Inr (JBoolean True), this)"

definition TwainClose :: "CallbackInfo \<Rightarrow> Scanner \<Rightarrow> outcome \<times> Scanner" where
  "TwainClose info this =
     (Inr (JBoolean True), this\<lparr>isInitialized := False, selectedDeviceId := []\<rparr>)"

section \<open>saneWrapper.cpp\<close>

definition SaneInitialize :: "CallbackInfo \<Rightarrow> Scanner \<Rightarrow> outcome \<times> Scanner" where
  "SaneInitialize info this = (Inr (JBoolean True), this\<lparr>isInitialized := True\<rparr>)"

definition SaneEnumerateDevices :: "CallbackInfo \<Rightarrow> Scanner \<Rightarrow> outcome \<times> Scanner" where
  "SaneEnumerateDevices info this = (Inr (JArray (Array_New 0)), this)"

definition SaneSelectDevice :: "CallbackInfo \<Rightarrow> Scanner \<Rightarrow> outcome \<times> Scanner" where
  "SaneSelectDevice info this =
     (if length info < 1 \<or> \<not> IsString (info_at info 0)
      then (Inl (TypeError ''Device ID expected''), this)
      else (Inr (JBoolean True), this\<lparr>selectedDeviceId := Utf8Value (info_at info 0)\<rparr>))"

definition SaneGetCapabilities :: "CallbackInfo \<Rightarrow> Scanner \<Rightarrow> outcome \<times> Scanner" where
  "SaneGetCapabilities info this = (Inr (JObject []), this)"

definition SaneScan :: "CallbackInfo \<Rightarrow> Scanner \<Rightarrow> outcome \<times> Scanner" where
  "SaneScan info this =
     (let result = [];
          result = Object_Set ''success'' (JBoolean False) result;
          result = Object_Set ''errorMessage'' (JString ''SANE scanning not implemented'') result
      in (Inr (JObject result), this))"

definition SaneCancelScan :: "CallbackInfo \<Rightarrow> Scanner \<Rightarrow> outcome \<times> Scanner" where
  "SaneCancelScan info this = (Inr (JBoolean True), this)"

definition SaneClose :: "CallbackInfo \<Rightarrow> Scanner \<Rightarrow> outcome \<times> Scanner" where
  "SaneClose info this = (Inr (JBoolean True), this\<lparr>isInitialized := False\<rparr>)"

section \<open>wiaWrapper.cpp\<close>

definition WiaInitialize :: "CallbackInfo \<Rightarrow> Scanner \<Rightarrow> outcome \<times> Scanner" where
  "WiaInitialize info this = (Inr (JBoolean True), this\<lparr>isInitialized := True\<rparr>)"

definition WiaEnumerateDevices :: "CallbackInfo \<Rightarrow> Scanner \<Rightarrow> outcome \<times> Scanner" where
  "WiaEnumerateDevices info this = (Inr (JArray (Array_New 0)), this)"

definition WiaSelectDevice :: "CallbackInfo \<Rightarrow> Scanner \<Rightarrow> outcome \<times> Scanner" where
  "WiaSelectDevice info this =
     (if length info < 1 \<or> \<not> IsString (info_at info 0)
      then (Inl (TypeError ''Device ID expected''), this)
      else (Inr (JBoolean True), this\<lparr>selectedDeviceId := Utf8Value (info_at info 0)\<rparr>))"

definition WiaGetCapabilities :: "CallbackInfo \<Rightarrow> Scanner \<Rightarrow> outcome \<times> Scanner" where
  "WiaGetCapabilities info this =
     (let capabilities = [] in (Inr (JObject capabilities), this))"

definition WiaScan :: "CallbackInfo \<Rightarrow> Scanner \<Rightarrow> outcome \<times> Scanner" where
  "WiaScan info this =
     (let result = [];
          result = Object_Set ''success'' (JBoolean False) result;
          result = Object_Set ''errorMessage'' (JString ''WIA scanning not implemented'') result
      in (Inr (JObject result), this))"

definition WiaCancelScan :: "CallbackInfo \<Rightarrow> Scanner \<Rightarrow> outcome \<times> Scanner" where
  "WiaCancelScan info this = (Inr (JBoolean True), this)"

definition WiaClose :: "CallbackInfo \<Rightarrow> Scanner \<Rightarrow> outcome \<times> Scanner" where
  "WiaClose info this = (Inr (JBoolean True), this\<lparr>isInitialized := False\<rparr>)"

section \<open>Observations used to state the properties\<close>

text \<open>
  The same method called \<open>n\<close> times in a row on one session: the outcomes in call
  order and the final state.
\<close>

fun call_times :: "nat \<Rightarrow> (Scanner \<Rightarrow> outcome \<times> Scanner) \<Rightarrow> Scanner \<Rightarrow> outcome list \<times> Scanner" where
  "call_times 0 m this = ([], this)"
| "call_times (Suc n) m this =
     (let (r, this1) = m this; (rs, this2) = call_times n m this1 in (r # rs, this2))"

text \<open>
  The \<^verbatim>\<open>id\<close> properties of the devices of an enumeration outcome (none when
  the call threw).
\<close>

fun device_id :: "napi_value \<Rightarrow> string list" where
  "device_id (JObject ps) = (case map_of ps ''id'' of Some (JString i) \<Rightarrow> [i] | _ \<Rightarrow> [])"
| "device_id v = []"

fun enumerated_ids :: "outcome \<Rightarrow> string list" where
  "enumerated_ids (Inr (JArray ds)) = concat (map device_id ds)"
| "enumerated_ids r = []"

text \<open>
  The elements of the array stored under \<open>key\<close> in the \<^verbatim>\<open>capabilities\<close>
  object of each device of an enumeration outcome.
\<close>

fun device_capability :: "string \<Rightarrow> napi_value \<Rightarrow> napi_value list" where
  "device_capability key (JObject ps) =
     (case map_of ps ''capabilities'' of
        Some (JObject cs) \<Rightarrow> (case map_of cs key of Some (JArray xs) \<Rightarrow> xs | _ \<Rightarrow> [])
      | _ \<Rightarrow> [])"
| "device_capability key v = []"

fun enumerated_capability :: "string \<Rightarrow> outcome \<Rightarrow> napi_value list" where
  "enumerated_capability key (Inr (JArray ds)) = concat (map (device_capability key) ds)"
| "enumerated_capability key r = []"

text \<open>
  The settings object of the specification's scan scenario, and the same object
  asking for a resolution of 999 dpi.
\<close>

definition scenario_settings :: napi_value where
  "scenario_settings =
     JObject [(''resolution'', JNumber 300), (''colorMode'', JString ''color''),
              (''paperSize'', JString ''letter''), (''useADF'', JBoolean False),
              (''duplex'', JBoolean False)]"

definition settings_999 :: napi_value where
  "settings_999 =
     JObject [(''resolution'', JNumber 999), (''colorMode'', JString ''color''),
              (''paperSize'', JString ''letter''), (''useADF'', JBoolean False),
              (''duplex'', JBoolean False)]"

section \<open>What the mock enumeration returns\<close>

lemma TwainEnumerateDevices_initialized:
  "isInitialized this \<Longrightarrow>
   TwainEnumerateDevices info this =
     (Inr (JArray [JObject
        [(''id'', JString ''twain-mock-001''),
         (''name'', JString ''TWAIN Mock Scanner''),
         (''manufacturer'', JString ''PaperFlow''),
         (''model'', JString ''Virtual Scanner''),
         (''available'', JBoolean True),
         (''platform'', JString ''twain''),
         (''capabilities'', JObject
            [(''hasFlatbed'', JBoolean True),
             (''hasADF'', JBoolean True),
             (''duplex'', JBoolean True),
             (''resolutions'', JArray [JNumber 75, JNumber 150, JNumber 300, JNumber 600]),
             (''colorModes'', JArray [JString ''color'', JString ''grayscale'', JString ''blackwhite'']),
             (''paperSizes'', JArray [JString ''letter'', JString ''legal'', JString ''a4'', JString ''a5'']),
             (''maxWidth'', JNumber 8.5),
             (''maxHeight'', JNumber 14.0)])]]), this)"
  by (simp add: TwainEnumerateDevices_def Array_New_def Array_Set_def Let_def eval_nat_numeral)

lemma enumerated_ids_Twain:
  "isInitialized this \<Longrightarrow>
   enumerated_ids (fst (TwainEnumerateDevices info this)) = [''twain-mock-001'']"
  by (simp add: TwainEnumerateDevices_initialized)

lemma enumerated_capability_Twain:
  "isInitialized this \<Longrightarrow>
   enumerated_capability ''resolutions'' (fst (TwainEnumerateDevices info this)) =
     [JNumber 75, JNumber 150, JNumber 300, JNumber 600] \<and>
   enumerated_capability ''colorModes'' (fst (TwainEnumerateDevices info this)) =
     [JString ''color'', JString ''grayscale'', JString ''blackwhite''] \<and>
   enumerated_capability ''paperSizes'' (fst (TwainEnumerateDevices info this)) =
     [JString ''letter'', JString ''legal'', JString ''a4'', JString ''a5'']"
  by (simp add: TwainEnumerateDevices_initialized)

section \<open>Initialize\<close>

text \<open>
  Claim C9.  On the TWAIN, SANE and WIA backends a second \<^verbatim>\<open>Initialize()\<close>
  has the observable effect of the first alone: whatever the arguments and the
  session, both calls return \<^verbatim>\<open>true\<close>, the second call leaves the session
  exactly as the first left it (so the pair equals the single call), and the
  session is initialized afterwards.
\<close>

theorem Initialize_twice:
  "fst (TwainInitialize info this) = Inr (JBoolean True) \<and>
   TwainInitialize info' (snd (TwainInitialize info this)) = TwainInitialize info this \<and>
   isInitialized (snd (TwainInitialize info' (snd (TwainInitialize info this)))) \<and>
   fst (SaneInitialize info this) = Inr (JBoolean True) \<and>
   SaneInitialize info' (snd (SaneInitialize info this)) = SaneInitialize info this \<and>
   isInitialized (snd (SaneInitialize info' (snd (SaneInitialize info this)))) \<and>
   fst (WiaInitialize info this) = Inr (JBoolean True) \<and>
   WiaInitialize info' (snd (WiaInitialize info this)) = WiaInitialize info this \<and>
   isInitialized (snd (WiaInitialize info' (snd (WiaInitialize info this))))"
  by (simp add: TwainInitialize_def SaneInitialize_def WiaInitialize_def)

section \<open>EnumerateDevices\<close>

text \<open>The TWAIN wrapper refuses to enumerate on a session that is not initialized.\<close>

lemma TwainEnumerateDevices_uninitialized:
  "\<not> isInitialized this \<Longrightarrow>
   TwainEnumerateDevices info this = (Inl (Error ''TWAIN not initialized''), this)"
  by (simp add: TwainEnumerateDevices_def)

lemma TwainEnumerateDevices_after_Close:
  "TwainEnumerateDevices info (snd (TwainClose info' this)) =
     (Inl (Error ''TWAIN not initialized''), snd (TwainClose info' this))"
  by (simp add: TwainEnumerateDevices_def TwainClose_def)

text \<open>
  Claim C3.  \<^verbatim>\<open>EnumerateDevices()\<close> on a session that was never initialized
  should fail with \<open>NotInitialized\<close>.  The TWAIN wrapper does (the two lemmas
  above); the SANE and WIA wrappers never read \<^verbatim>\<open>isInitialized_\<close>: on a
  freshly constructed session they return an empty device array and throw
  nothing.
\<close>

theorem EnumerateDevices_uninitialized_Sane_Wia:
  "SaneEnumerateDevices [] SaneScanner_new = (Inr (JArray []), SaneScanner_new) \<and>
   isInitialized SaneScanner_new = False \<and>
   WiaEnumerateDevices [] WiaScanner_new = (Inr (JArray []), WiaScanner_new) \<and>
   isInitialized WiaScanner_new = False"
  by (simp add: SaneEnumerateDevices_def WiaEnumerateDevices_def Array_New_def
      SaneScanner_new_def WiaScanner_new_def)

section \<open>SelectDevice\<close>

text \<open>
  Claim C10.  On the TWAIN, SANE and WIA backends \<^verbatim>\<open>SelectDevice(id)\<close> with a
  non-empty string as first argument returns \<^verbatim>\<open>true\<close> and stores the string
  as the selected device id, whatever the session state (initialized or not)
  and whatever else is passed: neither \<^verbatim>\<open>isInitialized_\<close> nor any
  enumeration is consulted.
\<close>

theorem SelectDevice_stores_any_id:
  "deviceId \<noteq> [] \<Longrightarrow>
   TwainSelectDevice (JString deviceId # rest) this =
     (Inr (JBoolean True), this\<lparr>selectedDeviceId := deviceId\<rparr>) \<and>
   SaneSelectDevice (JString deviceId # rest) this =
     (Inr (JBoolean True), this\<lparr>selectedDeviceId := deviceId\<rparr>) \<and>
   WiaSelectDevice (JString deviceId # rest) this =
     (Inr (JBoolean True), this\<lparr>selectedDeviceId := deviceId\<rparr>)"
  by (simp add: TwainSelectDevice_def SaneSelectDevice_def WiaSelectDevice_def info_at_def)

text \<open>
  Witness for C10: the id \<^verbatim>\<open>never-enumerated\<close> is selected on sessions that
  were never initialized.
\<close>

theorem SelectDevice_stores_any_id_witness:
  "''never-enumerated'' \<noteq> [] \<and>
   TwainSelectDevice [JString ''never-enumerated''] TwainScanner_new =
     (Inr (JBoolean True), \<lparr>isInitialized = False, selectedDeviceId = ''never-enumerated''\<rparr>) \<and>
   SaneSelectDevice [JString ''never-enumerated''] SaneScanner_new =
     (Inr (JBoolean True), \<lparr>isInitialized = False, selectedDeviceId = ''never-enumerated''\<rparr>) \<and>
   WiaSelectDevice [JString ''never-enumerated''] WiaScanner_new =
     (Inr (JBoolean True), \<lparr>isInitialized = False, selectedDeviceId = ''never-enumerated''\<rparr>)"
proof -
  have ne: "''never-enumerated'' \<noteq> []" by simp
  have new: "TwainScanner_new = \<lparr>isInitialized = False, selectedDeviceId = []\<rparr>"
    "SaneScanner_new = \<lparr>isInitialized = False, selectedDeviceId = []\<rparr>"
    "WiaScanner_new = \<lparr>isInitialized = False, selectedDeviceId = []\<rparr>"
    by (simp_all add: TwainScanner_new_def SaneScanner_new_def WiaScanner_new_def)
  show ?thesis
    using SelectDevice_stores_any_id [OF ne, of "[]" "\<lparr>isInitialized = False, selectedDeviceId = []\<rparr>"]
    by (simp add: new)
qed

text \<open>
  Claim C4 as stated fails: on an initialized TWAIN session whose enumeration
  lists only \<^verbatim>\<open>twain-mock-001\<close>, \<^verbatim>\<open>SelectDevice("no-such-device")\<close>
  returns \<^verbatim>\<open>true\<close> and the session holds that id as its selection.
\<close>

theorem SelectDevice_unknown_id_counterexample:
  "enumerated_ids (fst (TwainEnumerateDevices []
      \<lparr>isInitialized = True, selectedDeviceId = []\<rparr>)) = [''twain-mock-001''] \<and>
   TwainSelectDevice [JString ''no-such-device'']
      \<lparr>isInitialized = True, selectedDeviceId = []\<rparr> =
     (Inr (JBoolean True), \<lparr>isInitialized = True, selectedDeviceId = ''no-such-device''\<rparr>)"
  by (simp add: enumerated_ids_Twain TwainSelectDevice_def info_at_def)

text \<open>
  Claim C4, amended.  For every TWAIN session and every string that is not
  among the ids \<^verbatim>\<open>EnumerateDevices()\<close> returns on that session,
  \<^verbatim>\<open>SelectDevice\<close> of that string does not fail: it returns \<^verbatim>\<open>true\<close>
  and stores the string as the selected device id.
\<close>

theorem SelectDevice_unknown_id_selected:
  "deviceId \<notin> set (enumerated_ids (fst (TwainEnumerateDevices [] this))) \<Longrightarrow>
   TwainSelectDevice [JString deviceId] this =
     (Inr (JBoolean True), this\<lparr>selectedDeviceId := deviceId\<rparr>)"
  by (simp add: TwainSelectDevice_def info_at_def)

text \<open>Witness for C4: the unknown id \<^verbatim>\<open>ghost-7\<close> on an initialized session.\<close>

theorem SelectDevice_unknown_id_selected_witness:
  "''ghost-7'' \<notin> set (enumerated_ids (fst (TwainEnumerateDevices []
      (snd (TwainInitialize [] TwainScanner_new))))) \<and>
   TwainSelectDevice [JString ''ghost-7''] (snd (TwainInitialize [] TwainScanner_new)) =
     (Inr (JBoolean True), \<lparr>isInitialized = True, selectedDeviceId = ''ghost-7''\<rparr>)"
proof -
  have init: "snd (TwainInitialize [] TwainScanner_new) =
      \<lparr>isInitialized = True, selectedDeviceId = []\<rparr>"
    by (simp add: TwainInitialize_def TwainScanner_new_def)
  have unknown: "''ghost-7'' \<notin> set (enumerated_ids (fst (TwainEnumerateDevices []
      \<lparr>isInitialized = True, selectedDeviceId = []\<rparr>)))"
    by (simp add: enumerated_ids_Twain)
  show ?thesis
    using unknown SelectDevice_unknown_id_selected [OF unknown]
    by (simp add: init)
qed

text \<open>
  Claim C5 as stated fails: \<^verbatim>\<open>SelectDevice("")\<close> returns \<^verbatim>\<open>true\<close> on all
  three backends, and on a session that had \<^verbatim>\<open>twain-mock-001\<close> selected it
  overwrites the selection with the empty string.
\<close>

theorem SelectDevice_empty_id_counterexample:
  "TwainSelectDevice [JString []] \<lparr>isInitialized = True, selectedDeviceId = ''twain-mock-001''\<rparr> =
     (Inr (JBoolean True), \<lparr>isInitialized = True, selectedDeviceId = []\<rparr>) \<and>
   SaneSelectDevice [JString []] \<lparr>isInitialized = True, selectedDeviceId = ''sane-001''\<rparr> =
     (Inr (JBoolean True), \<lparr>isInitialized = True, selectedDeviceId = []\<rparr>) \<and>
   WiaSelectDevice [JString []] \<lparr>isInitialized = True, selectedDeviceId = ''wia-001''\<rparr> =
     (Inr (JBoolean True), \<lparr>isInitialized = True, selectedDeviceId = []\<rparr>)"
  by (simp add: TwainSelectDevice_def SaneSelectDevice_def WiaSelectDevice_def info_at_def)

text \<open>
  Claim C5, amended.  For every session in any state, \<^verbatim>\<open>SelectDevice("")\<close>
  returns \<^verbatim>\<open>true\<close> and leaves the selected device id empty (an earlier
  selection is replaced by the empty string).  What the argument check rejects
  is a call without a first argument, with the \<^verbatim>\<open>TypeError\<close>
  "Device ID expected" and the session unchanged.
\<close>

theorem SelectDevice_empty_id:
  "TwainSelectDevice (JString [] # rest) this =
     (Inr (JBoolean True), this\<lparr>selectedDeviceId := []\<rparr>) \<and>
   SaneSelectDevice (JString [] # rest) this =
     (Inr (JBoolean True), this\<lparr>selectedDeviceId := []\<rparr>) \<and>
   WiaSelectDevice (JString [] # rest) this =
     (Inr (JBoolean True), this\<lparr>selectedDeviceId := []\<rparr>) \<and>
   TwainSelectDevice [] this = (Inl (TypeError ''Device ID expected''), this) \<and>
   SaneSelectDevice [] this = (Inl (TypeError ''Device ID expected''), this) \<and>
   WiaSelectDevice [] this = (Inl (TypeError ''Device ID expected''), this)"
  by (simp add: TwainSelectDevice_def SaneSelectDevice_def WiaSelectDevice_def info_at_def)

text \<open>The argument check also rejects a first argument that is not a string.\<close>

lemma SelectDevice_not_a_string:
  "\<not> IsString v \<Longrightarrow>
   TwainSelectDevice (v # rest) this = (Inl (TypeError ''Device ID expected''), this) \<and>
   SaneSelectDevice (v # rest) this = (Inl (TypeError ''Device ID expected''), this) \<and>
   WiaSelectDevice (v # rest) this = (Inl (TypeError ''Device ID expected''), this)"
  by (simp add: TwainSelectDevice_def SaneSelectDevice_def WiaSelectDevice_def info_at_def)

section \<open>GetCapabilities\<close>

text \<open>
  Claim C8 as stated fails: on freshly constructed sessions (nothing selected)
  \<^verbatim>\<open>GetCapabilities()\<close> returns an object on every backend and throws nothing.
\<close>

theorem GetCapabilities_no_device_counterexample:
  "selectedDeviceId TwainScanner_new = [] \<and>
   TwainGetCapabilities [] TwainScanner_new =
     (Inr (JObject [(''hasFlatbed'', JBoolean True), (''hasADF'', JBoolean True),
                    (''duplex'', JBoolean True)]), TwainScanner_new) \<and>
   SaneGetCapabilities [] SaneScanner_new = (Inr (JObject []), SaneScanner_new) \<and>
   WiaGetCapabilities [] WiaScanner_new = (Inr (JObject []), WiaScanner_new)"
  by (simp add: TwainGetCapabilities_def SaneGetCapabilities_def WiaGetCapabilities_def
      TwainScanner_new_def)

text \<open>
  Claim C8, amended.  For every session with no device selected,
  \<^verbatim>\<open>GetCapabilities()\<close> does not fail: the TWAIN backend returns the object
  with \<^verbatim>\<open>hasFlatbed\<close>, \<^verbatim>\<open>hasADF\<close> and \<^verbatim>\<open>duplex\<close> all true, the SANE
  and WIA backends return an empty object, and the session is unchanged.
\<close>

theorem GetCapabilities_no_device:
  "selectedDeviceId this = [] \<Longrightarrow>
   TwainGetCapabilities info this =
     (Inr (JObject [(''hasFlatbed'', JBoolean True), (''hasADF'', JBoolean True),
                    (''duplex'', JBoolean True)]), this) \<and>
   SaneGetCapabilities info this = (Inr (JObject []), this) \<and>
   WiaGetCapabilities info this = (Inr (JObject []), this)"
  by (simp add: TwainGetCapabilities_def SaneGetCapabilities_def WiaGetCapabilities_def)

text \<open>Witness for C8: an initialized session on which nothing was selected.\<close>

theorem GetCapabilities_no_device_witness:
  "selectedDeviceId \<lparr>isInitialized = True, selectedDeviceId = []\<rparr> = [] \<and>
   TwainGetCapabilities [] \<lparr>isInitialized = True, selectedDeviceId = []\<rparr> =
     (Inr (JObject [(''hasFlatbed'', JBoolean True), (''hasADF'', JBoolean True),
                    (''duplex'', JBoolean True)]),
      \<lparr>isInitialized = True, selectedDeviceId = []\<rparr>) \<and>
   SaneGetCapabilities [] \<lparr>isInitialized = True, selectedDeviceId = []\<rparr> =
     (Inr (JObject []), \<lparr>isInitialized = True, selectedDeviceId = []\<rparr>) \<and>
   WiaGetCapabilities [] \<lparr>isInitialized = True, selectedDeviceId = []\<rparr> =
     (Inr (JObject []), \<lparr>isInitialized = True, selectedDeviceId = []\<rparr>)"
proof -
  have none: "selectedDeviceId \<lparr>isInitialized = True, selectedDeviceId = []\<rparr> = []"
    by simp
  show ?thesis
    using none GetCapabilities_no_device [OF none, of "[]"] by simp
qed

section \<open>Scan\<close>

text \<open>The TWAIN wrapper refuses to scan while the selected device id is empty.\<close>

lemma TwainScan_no_device:
  "selectedDeviceId this = [] \<Longrightarrow>
   TwainScan info this = (Inl (Error ''No device selected''), this)"
  by (simp add: TwainScan_def)

text \<open>
  Claim C7.  \<^verbatim>\<open>Scan(settings)\<close> with no device selected should fail with
  \<open>NoDeviceSelected\<close> and leave the session unchanged.  The TWAIN wrapper does
  (the lemma above); the SANE and WIA wrappers never read
  \<^verbatim>\<open>selectedDeviceId_\<close>: on a freshly constructed session they return the
  generic result object "scanning not implemented" and throw nothing.
\<close>

theorem Scan_no_device_Sane_Wia:
  "selectedDeviceId SaneScanner_new = [] \<and>
   SaneScan [scenario_settings] SaneScanner_new =
     (Inr (JObject [(''success'', JBoolean False),
                    (''errorMessage'', JString ''SANE scanning not implemented'')]),
      SaneScanner_new) \<and>
   selectedDeviceId WiaScanner_new = [] \<and>
   WiaScan [scenario_settings] WiaScanner_new =
     (Inr (JObject [(''success'', JBoolean False),
                    (''errorMessage'', JString ''WIA scanning not implemented'')]),
      WiaScanner_new)"
  by (simp add: SaneScan_def WiaScan_def SaneScanner_new_def WiaScanner_new_def)

text \<open>
  Claim C1 as stated fails: on a TWAIN session with \<^verbatim>\<open>twain-mock-001\<close>
  selected, whose enumeration offers the resolutions 75, 150, 300 and 600,
  \<^verbatim>\<open>Scan\<close> with a resolution of 999 throws nothing and returns exactly
  what it returns for the valid resolution 300: the result object "TWAIN
  scanning not implemented", which names no setting.
\<close>

theorem Scan_resolution_999_counterexample:
  "enumerated_capability ''resolutions'' (fst (TwainEnumerateDevices []
      \<lparr>isInitialized = True, selectedDeviceId = ''twain-mock-001''\<rparr>)) =
     [JNumber 75, JNumber 150, JNumber 300, JNumber 600] \<and>
   TwainScan [settings_999] \<lparr>isInitialized = True, selectedDeviceId = ''twain-mock-001''\<rparr> =
     (Inr (JObject [(''success'', JBoolean False),
                    (''errorMessage'',
                     JString ''TWAIN scanning not implemented - using mock scanner'')]),
      \<lparr>isInitialized = True, selectedDeviceId = ''twain-mock-001''\<rparr>) \<and>
   TwainScan [settings_999] \<lparr>isInitialized = True, selectedDeviceId = ''twain-mock-001''\<rparr> =
   TwainScan [scenario_settings] \<lparr>isInitialized = True, selectedDeviceId = ''twain-mock-001''\<rparr>"
  by (simp add: enumerated_capability_Twain TwainScan_def)

text \<open>
  Claim C1, amended.  For every TWAIN session with a device selected and every
  argument list (any settings object, valid or not), \<^verbatim>\<open>Scan\<close> does not
  examine the settings: it returns the result object with
  \<^verbatim>\<open>success = false\<close> and the error message "TWAIN scanning not implemented
  - using mock scanner", and leaves the session unchanged.
\<close>

theorem TwainScan_ignores_settings:
  "selectedDeviceId this \<noteq> [] \<Longrightarrow>
   TwainScan info this =
     (Inr (JObject [(''success'', JBoolean False),
                    (''errorMessage'',
                     JString ''TWAIN scanning not implemented - using mock scanner'')]),
      this)"
  by (simp add: TwainScan_def)

text \<open>
  Witness for C1: the settings with resolution 999 on a session reached by
  \<^verbatim>\<open>Initialize\<close> and \<^verbatim>\<open>SelectDevice("twain-mock-001")\<close>.
\<close>

theorem TwainScan_ignores_settings_witness:
  "selectedDeviceId (snd (TwainSelectDevice [JString ''twain-mock-001'']
      (snd (TwainInitialize [] TwainScanner_new)))) \<noteq> [] \<and>
   TwainScan [settings_999] (snd (TwainSelectDevice [JString ''twain-mock-001'']
      (snd (TwainInitialize [] TwainScanner_new)))) =
     (Inr (JObject [(''success'', JBoolean False),
                    (''errorMessage'',
                     JString ''TWAIN scanning not implemented - using mock scanner'')]),
      \<lparr>isInitialized = True, selectedDeviceId = ''twain-mock-001''\<rparr>)"
proof -
  have reached: "snd (TwainSelectDevice [JString ''twain-mock-001'']
      (snd (TwainInitialize [] TwainScanner_new))) =
      \<lparr>isInitialized = True, selectedDeviceId = ''twain-mock-001''\<rparr>"
    by (simp add: TwainSelectDevice_def TwainInitialize_def TwainScanner_new_def info_at_def)
  have selected: "selectedDeviceId \<lparr>isInitialized = True, selectedDeviceId = ''twain-mock-001''\<rparr> \<noteq> []"
    by simp
  show ?thesis
    using selected TwainScan_ignores_settings [OF selected, of "[settings_999]"]
    by (simp add: reached)
qed

text \<open>
  The specification's scan scenario starts from an enumeration that lists a
  device with id \<^verbatim>\<open>mock-001\<close>.  No session of the three wrappers has
  one: the TWAIN wrapper lists \<^verbatim>\<open>twain-mock-001\<close> only (or throws), the
  SANE and WIA wrappers list nothing.  The scenario is therefore not decided
  by the code, one way or the other.
\<close>

lemma mock_001_never_enumerated:
  "''mock-001'' \<notin> set (enumerated_ids (fst (TwainEnumerateDevices info this))) \<and>
   ''mock-001'' \<notin> set (enumerated_ids (fst (SaneEnumerateDevices info this))) \<and>
   ''mock-001'' \<notin> set (enumerated_ids (fst (WiaEnumerateDevices info this)))"
proof (cases "isInitialized this")
  case True
  then show ?thesis
    by (simp add: enumerated_ids_Twain SaneEnumerateDevices_def WiaEnumerateDevices_def
        Array_New_def)
next
  case False
  then show ?thesis
    by (simp add: TwainEnumerateDevices_uninitialized SaneEnumerateDevices_def
        WiaEnumerateDevices_def Array_New_def)
qed

text \<open>
  What the TWAIN wrapper does with the device it does enumerate: on an
  initialized session the enumeration lists \<^verbatim>\<open>twain-mock-001\<close> with 300,
  "color" and "letter" among its capabilities, \<^verbatim>\<open>SelectDevice\<close> of that id
  returns \<^verbatim>\<open>true\<close>, and the scenario's \<^verbatim>\<open>Scan\<close> then returns
  \<^verbatim>\<open>success = false\<close> with no \<^verbatim>\<open>resolution\<close> or \<^verbatim>\<open>colorMode\<close>
  property, keeping the selection.
\<close>

lemma Scan_scenario_twain_mock_001:
  assumes "isInitialized this"
  shows "enumerated_ids (fst (TwainEnumerateDevices [] this)) = [''twain-mock-001'']"
    and "JNumber 300 \<in> set (enumerated_capability ''resolutions''
           (fst (TwainEnumerateDevices [] this)))"
    and "JString ''color'' \<in> set (enumerated_capability ''colorModes''
           (fst (TwainEnumerateDevices [] this)))"
    and "JString ''letter'' \<in> set (enumerated_capability ''paperSizes''
           (fst (TwainEnumerateDevices [] this)))"
    and "fst (TwainSelectDevice [JString ''twain-mock-001''] this) = Inr (JBoolean True)"
    and "TwainScan [scenario_settings] (snd (TwainSelectDevice [JString ''twain-mock-001''] this)) =
           (Inr (JObject [(''success'', JBoolean False),
                          (''errorMessage'',
                           JString ''TWAIN scanning not implemented - using mock scanner'')]),
            this\<lparr>selectedDeviceId := ''twain-mock-001''\<rparr>)"
  using assms
  by (simp_all add: enumerated_ids_Twain enumerated_capability_Twain
      TwainSelectDevice_def TwainScan_def info_at_def)

section \<open>Close\<close>

text \<open>
  The TWAIN wrapper's \<^verbatim>\<open>Close()\<close>, called any positive number of times on
  any session, returns \<^verbatim>\<open>true\<close> each time and ends uninitialized with the
  selected device id empty.
\<close>

lemma TwainClose_call_times:
  "0 < n \<Longrightarrow>
   call_times n (TwainClose info) this =
     (replicate n (Inr (JBoolean True)), \<lparr>isInitialized = False, selectedDeviceId = []\<rparr>)"
proof (induction n arbitrary: this)
  case 0
  then show ?case by simp
next
  case (Suc n)
  show ?case
  proof (cases n)
    case 0
    then show ?thesis by (simp add: TwainClose_def)
  next
    case (Suc m)
    then have "0 < n" by simp
    from Suc.IH [OF this] show ?thesis by (simp add: TwainClose_def)
  qed
qed

text \<open>The SANE and WIA wrappers' \<^verbatim>\<open>Close()\<close> never touch the selected device id.\<close>

lemma SaneClose_call_times_selectedDeviceId:
  "selectedDeviceId (snd (call_times n (SaneClose info) this)) = selectedDeviceId this"
  by (induction n arbitrary: this) (simp_all add: SaneClose_def split_beta)

lemma WiaClose_call_times_selectedDeviceId:
  "selectedDeviceId (snd (call_times n (WiaClose info) this)) = selectedDeviceId this"
  by (induction n arbitrary: this) (simp_all add: WiaClose_def split_beta)

text \<open>
  Claim C6.  \<^verbatim>\<open>Close()\<close> called \<open>N \<ge> 1\<close> times should return \<^verbatim>\<open>true\<close>
  every time and leave the session uninitialized with the selected device id
  cleared.  The TWAIN wrapper does (lemma \<open>TwainClose_call_times\<close>); the SANE
  and WIA wrappers reset \<^verbatim>\<open>isInitialized_\<close> only: after
  \<^verbatim>\<open>Initialize\<close> and \<^verbatim>\<open>SelectDevice\<close>, one \<^verbatim>\<open>Close()\<close> or two
  return \<^verbatim>\<open>true\<close> and the session still holds the selected id.
\<close>

theorem Close_keeps_selection_Sane_Wia:
  "call_times 1 (SaneClose [])
     (snd (SaneSelectDevice [JString ''sane-001''] (snd (SaneInitialize [] SaneScanner_new)))) =
     ([Inr (JBoolean True)], \<lparr>isInitialized = False, selectedDeviceId = ''sane-001''\<rparr>) \<and>
   call_times 2 (SaneClose [])
     (snd (SaneSelectDevice [JString ''sane-001''] (snd (SaneInitialize [] SaneScanner_new)))) =
     ([Inr (JBoolean True), Inr (JBoolean True)],
      \<lparr>isInitialized = False, selectedDeviceId = ''sane-001''\<rparr>) \<and>
   call_times 1 (WiaClose [])
     (snd (WiaSelectDevice [JString ''wia-001''] (snd (WiaInitialize [] WiaScanner_new)))) =
     ([Inr (JBoolean True)], \<lparr>isInitialized = False, selectedDeviceId = ''wia-001''\<rparr>) \<and>
   call_times 2 (WiaClose [])
     (snd (WiaSelectDevice [JString ''wia-001''] (snd (WiaInitialize [] WiaScanner_new)))) =
     ([Inr (JBoolean True), Inr (JBoolean True)],
      \<lparr>isInitialized = False, selectedDeviceId = ''wia-001''\<rparr>)"
  by (simp add: eval_nat_numeral SaneClose_def SaneSelectDevice_def SaneInitialize_def
      SaneScanner_new_def WiaClose_def WiaSelectDevice_def WiaInitialize_def WiaScanner_new_def
      info_at_def)

end
